theory Spec2Isabelle
  imports Complex_Main
begin

section \<open>Circuit breaker (backend/services/circuit\_breaker.py)\<close>

text \<open>
  Readings of \<open>time.time()\<close> are modelled as real numbers: each function that reads the
  clock takes the value it reads as an argument. Python's unbounded integers are \<open>int\<close>.
  The breaker object is a record; every method returns the updated record.
\<close>

datatype CircuitState = CLOSED | OPEN | HALF_OPEN

record CircuitBreaker =
  name :: string
  failure_threshold :: int
  timeout_seconds :: int
  failure_count :: int
  last_failure_time :: "real option"
  state :: CircuitState
  success_count :: int

text \<open>
  The constructor: \<open>failure_threshold or int(os.getenv(...))\<close>. An argument that is
  \<open>None\<close> or \<open>0\<close> is falsy and falls back to the environment's value, which is taken
  here as a parameter (\<open>5\<close> and \<open>60\<close> when the variables are unset).
\<close>

definition py_or_int :: "int option \<Rightarrow> int \<Rightarrow> int" where
  "py_or_int v d = (case v of None \<Rightarrow> d | Some n \<Rightarrow> if n = 0 then d else n)"

definition init_breaker :: "int option \<Rightarrow> int option \<Rightarrow> string \<Rightarrow> int \<Rightarrow> int \<Rightarrow> CircuitBreaker" where
  "init_breaker thr tmo nm env_threshold env_timeout =
     \<lparr> name = nm,
       failure_threshold = py_or_int thr env_threshold,
       timeout_seconds = py_or_int tmo env_timeout,
       failure_count = 0,
       last_failure_time = None,
       state = CLOSED,
       success_count = 0 \<rparr>"

definition open_circuit :: "CircuitBreaker \<Rightarrow> CircuitBreaker" where
  "open_circuit cb = cb\<lparr> state := OPEN, success_count := 0 \<rparr>"

definition close_circuit :: "CircuitBreaker \<Rightarrow> CircuitBreaker" where
  "close_circuit cb = cb\<lparr> state := CLOSED, failure_count := 0, success_count := 0 \<rparr>"

definition half_open_circuit :: "CircuitBreaker \<Rightarrow> CircuitBreaker" where
  "half_open_circuit cb = cb\<lparr> state := HALF_OPEN, success_count := 0 \<rparr>"

definition record_success :: "CircuitBreaker \<Rightarrow> CircuitBreaker" where
  "record_success cb =
     (if state cb = HALF_OPEN then
        (let cb1 = cb\<lparr> success_count := success_count cb + 1 \<rparr>
         in if success_count cb1 \<ge> 2 then close_circuit cb1 else cb1)
      else if state cb = CLOSED then cb\<lparr> failure_count := 0 \<rparr>
      else cb)"

definition record_failure :: "real \<Rightarrow> CircuitBreaker \<Rightarrow> CircuitBreaker" where
  "record_failure now cb =
     (let cb1 = cb\<lparr> failure_count := failure_count cb + 1, last_failure_time := Some now \<rparr>
      in if state cb1 = HALF_OPEN then open_circuit cb1
         else if failure_count cb1 \<ge> failure_threshold cb1 then open_circuit cb1
         else cb1)"

text \<open>
  \<open>can_execute\<close>: in state OPEN the test is
  \<open>self.last_failure_time and (time.time() - self.last_failure_time) >= self.timeout_seconds\<close>;
  a \<open>last_failure_time\<close> that is \<open>None\<close> or \<open>0.0\<close> is falsy.
\<close>

definition timeout_passed :: "real \<Rightarrow> CircuitBreaker \<Rightarrow> bool" where
  "timeout_passed now cb =
     (case last_failure_time cb of
        None \<Rightarrow> False
      | Some t \<Rightarrow> t \<noteq> 0 \<and> now - t \<ge> real_of_int (timeout_seconds cb))"

definition can_execute :: "real \<Rightarrow> CircuitBreaker \<Rightarrow> bool \<times> CircuitBreaker" where
  "can_execute now cb =
     (if state cb = CLOSED then (True, cb)
      else if state cb = OPEN then
        (if timeout_passed now cb then (True, half_open_circuit cb) else (False, cb))
      else (True, cb))"

text \<open>A sequence of \<open>record_failure\<close> calls, one clock reading per call.\<close>

fun record_failures :: "real list \<Rightarrow> CircuitBreaker \<Rightarrow> CircuitBreaker" where
  "record_failures [] cb = cb"
| "record_failures (t # ts) cb = record_failures ts (record_failure t cb)"

text \<open>The three public operations as a datatype, and runs of them with their trace of breakers.\<close>

datatype breaker_call = CanExecute real | RecordSuccess | RecordFailure real

fun breaker_step :: "breaker_call \<Rightarrow> CircuitBreaker \<Rightarrow> CircuitBreaker" where
  "breaker_step (CanExecute now) cb = snd (can_execute now cb)"
| "breaker_step RecordSuccess cb = record_success cb"
| "breaker_step (RecordFailure now) cb = record_failure now cb"

fun breaker_trace :: "breaker_call list \<Rightarrow> CircuitBreaker \<Rightarrow> CircuitBreaker list" where
  "breaker_trace [] cb = [cb]"
| "breaker_trace (c # cs) cb = cb # breaker_trace cs (breaker_step c cb)"

definition allowed_edge :: "CircuitState \<Rightarrow> CircuitState \<Rightarrow> bool" where
  "allowed_edge a b =
     ((a = CLOSED \<and> b = OPEN) \<or> (a = OPEN \<and> b = HALF_OPEN) \<or>
      (a = HALF_OPEN \<and> b = CLOSED) \<or> (a = HALF_OPEN \<and> b = OPEN))"

fun edges_ok :: "CircuitState list \<Rightarrow> bool" where
  "edges_ok (a # b # rest) = ((a = b \<or> allowed_edge a b) \<and> edges_ok (b # rest))"
| "edges_ok _ = True"


section \<open>Rate limiter (backend/services/rate\_limiter.py)\<close>

text \<open>
  \<open>self.requests\<close> is a \<open>defaultdict(list)\<close>: a total function from identifiers to
  timestamp lists, \<open>[]\<close> for an identifier never seen. \<open>check_rate_limit\<close> reads the clock
  itself (\<open>current_time\<close>) and then \<open>_clean_old_requests\<close> reads it again; the two readings
  are two arguments of the model.
\<close>

record RateLimiter =
  max_requests_per_minute :: int
  requests :: "string \<Rightarrow> real list"

definition init_rate_limiter :: "int \<Rightarrow> RateLimiter" where
  "init_rate_limiter env_max = \<lparr> max_requests_per_minute = env_max, requests = (\<lambda>_. []) \<rparr>"

definition clean_old_requests :: "real \<Rightarrow> string \<Rightarrow> int \<Rightarrow> RateLimiter \<Rightarrow> RateLimiter" where
  "clean_old_requests now identifier window_seconds rl =
     (let window_start = now - real_of_int window_seconds
      in rl\<lparr> requests := (requests rl)
                (identifier := filter (\<lambda>ts. ts > window_start) (requests rl identifier)) \<rparr>)"

definition check_rate_limit ::
  "real \<Rightarrow> real \<Rightarrow> string \<Rightarrow> int option \<Rightarrow> int \<Rightarrow> RateLimiter \<Rightarrow> (bool \<times> int) \<times> RateLimiter" where
  "check_rate_limit current_time clean_time identifier max_requests window_seconds rl =
     (let mr = py_or_int max_requests (max_requests_per_minute rl);
          rl1 = clean_old_requests clean_time identifier window_seconds rl;
          request_count = int (length (requests rl1 identifier))
      in if request_count \<ge> mr then ((False, 0), rl1)
         else ((True, mr - request_count - 1),
               rl1\<lparr> requests := (requests rl1)
                      (identifier := requests rl1 identifier @ [current_time]) \<rparr>))"

definition check_outbound_rate_limit ::
  "real \<Rightarrow> real \<Rightarrow> string \<Rightarrow> RateLimiter \<Rightarrow> bool \<times> RateLimiter" where
  "check_outbound_rate_limit current_time clean_time service rl =
     (case check_rate_limit current_time clean_time (''outbound:'' @ service) (Some 5) 1 rl of
        ((is_allowed, _), rl1) \<Rightarrow> (is_allowed, rl1))"

text \<open>
  A run of calls for one identifier with the same limit and window; each call has its two
  clock readings \<open>(current_time, clean_time)\<close>. The results are returned in call order.
\<close>

fun check_many ::
  "(real \<times> real) list \<Rightarrow> string \<Rightarrow> int option \<Rightarrow> int \<Rightarrow> RateLimiter \<Rightarrow> (bool \<times> int) list \<times> RateLimiter" where
  "check_many [] identifier max_requests window_seconds rl = ([], rl)"
| "check_many (t # ts) identifier max_requests window_seconds rl =
     (case check_rate_limit (fst t) (snd t) identifier max_requests window_seconds rl of
        (r, rl1) \<Rightarrow>
          (case check_many ts identifier max_requests window_seconds rl1 of
             (rs, rl2) \<Rightarrow> (r # rs, rl2)))"


section \<open>LLM service (backend/services/llm\_service.py)\<close>

text \<open>
  Exceptions are values. \<open>CircuitBreakerOpenError\<close> and \<open>RateLimitError\<close> are subclasses of
  \<open>LLMServiceError\<close>, which is a subclass of \<open>Exception\<close>; any other exception is kept with
  its type name. Each exception carries its message, the value of \<open>str(e)\<close>.
  \<open>BaseExceptionOnly\<close> stands for the exceptions that derive from \<open>BaseException\<close> but
  not from \<open>Exception\<close>: \<open>asyncio.CancelledError\<close>, which an \<open>await\<close> raises when the
  task is cancelled, \<open>KeyboardInterrupt\<close>, \<open>SystemExit\<close>. An \<open>except Exception\<close> clause
  does not catch them.
\<close>

datatype exn =
    LLMServiceError string
  | CircuitBreakerOpenError string
  | RateLimitError string
  | OtherException string string
  | BaseExceptionOnly string string

fun str_of :: "exn \<Rightarrow> string" where
  "str_of (LLMServiceError m) = m"
| "str_of (CircuitBreakerOpenError m) = m"
| "str_of (RateLimitError m) = m"
| "str_of (OtherException ty m) = m"
| "str_of (BaseExceptionOnly ty m) = m"

text \<open>\<open>isinstance(e, Exception)\<close>, the test of an \<open>except Exception\<close> clause.\<close>

fun is_Exception :: "exn \<Rightarrow> bool" where
  "is_Exception (LLMServiceError m) = True"
| "is_Exception (CircuitBreakerOpenError m) = True"
| "is_Exception (RateLimitError m) = True"
| "is_Exception (OtherException ty m) = True"
| "is_Exception (BaseExceptionOnly ty m) = False"

text \<open>\<open>isinstance(e, LLMServiceError)\<close>, the test of \<open>retry_if_exception_type\<close>.\<close>

fun is_LLMServiceError :: "exn \<Rightarrow> bool" where
  "is_LLMServiceError (LLMServiceError m) = True"
| "is_LLMServiceError (CircuitBreakerOpenError m) = True"
| "is_LLMServiceError (RateLimitError m) = True"
| "is_LLMServiceError (OtherException ty m) = False"
| "is_LLMServiceError (BaseExceptionOnly ty m) = False"

record LLMService =
  api_key :: "string option"
  model :: string

text \<open>\<open>self.client\<close> is \<open>None\<close> unless \<open>self.api_key\<close> is truthy (set and not empty).\<close>

definition client_configured :: "LLMService \<Rightarrow> bool" where
  "client_configured svc = (case api_key svc of None \<Rightarrow> False | Some k \<Rightarrow> k \<noteq> [])"

subsection \<open>Cleaning the response text\<close>

text \<open>
  Characters are code points below 256. \<open>str.strip()\<close> removes the characters for which
  \<open>str.isspace()\<close> holds from both ends.
\<close>

definition py_isspace :: "char \<Rightarrow> bool" where
  "py_isspace c = ((of_char c :: nat) \<in> set [9, 10, 11, 12, 13, 28, 29, 30, 31, 32, 133, 160])"

definition py_strip :: "string \<Rightarrow> string" where
  "py_strip s = rev (dropWhile py_isspace (rev (dropWhile py_isspace s)))"

definition fence :: string where
  "fence = [CHR 0x60, CHR 0x60, CHR 0x60]"

fun py_split_nl :: "string \<Rightarrow> string list" where
  "py_split_nl [] = [[]]"
| "py_split_nl (c # cs) =
     (if c = CHR 0x0A then [] # py_split_nl cs
      else (case py_split_nl cs of
              [] \<Rightarrow> [[c]]
            | l # ls \<Rightarrow> (c # l) # ls))"

fun py_join_nl :: "string list \<Rightarrow> string" where
  "py_join_nl [] = []"
| "py_join_nl [l] = l"
| "py_join_nl (l # ls) = l @ [CHR 0x0A] @ py_join_nl ls"

definition remove_code_fence :: "string \<Rightarrow> string" where
  "remove_code_fence code =
     (if take 3 code = fence then
        (let lines0 = py_split_nl code;
             lines1 = drop 1 lines0;
             lines2 = (if lines1 \<noteq> [] \<and> py_strip (last lines1) = fence
                       then butlast lines1 else lines1)
         in py_join_nl lines2)
      else code)"

subsection \<open>One attempt: the body of \<open>generate_ui_code\<close>\<close>

text \<open>
  What the awaited remote call does is given by the environment: it raises an
  \<open>Exception\<close> (type name and message), it raises an exception outside \<open>Exception\<close>
  (\<open>ApiRaisesBase\<close>: \<open>CancelledError\<close> when the task is cancelled during the await), or it
  returns a response, of which only the contents of the choices' messages matter
  (\<open>response.choices[i].message.content\<close>, a string or \<open>None\<close>).
  An attempt also reads the clock in \<open>can_execute\<close> and in \<open>record_failure\<close>.
  The \<open>except Exception\<close> clause of the attempt records a failure and wraps the
  exception only when it is an \<open>Exception\<close>; any other exception leaves the attempt as
  it is, with the breaker untouched by the handler.
\<close>

datatype api_outcome =
    ApiRaises string string
  | ApiRaisesBase string string
  | ApiReturns "string option list"

record attempt_env =
  check_time :: real
  api :: api_outcome
  failure_time :: real

record gen_result =
  code :: string
  explanation :: string

definition breaker_open_message :: string where
  "breaker_open_message = ''LLM service is temporarily unavailable. Please try again later.''"

definition none_strip_message :: string where
  "none_strip_message =
     [CHR 0x27] @ ''NoneType'' @ [CHR 0x27] @ '' object has no attribute '' @
     [CHR 0x27] @ ''strip'' @ [CHR 0x27]"

text \<open>
  The \<open>try\<close> block. The result is the value returned or the exception raised inside it,
  whether the remote call was made, and the breaker.
\<close>

definition try_block ::
  "LLMService \<Rightarrow> string \<Rightarrow> attempt_env \<Rightarrow> CircuitBreaker \<Rightarrow> (exn + gen_result) \<times> bool \<times> CircuitBreaker" where
  "try_block svc prompt env cb =
     (if \<not> client_configured svc then
        (Inl (LLMServiceError ''OpenAI API key not configured''), False, cb)
      else
        (case api env of
           ApiRaises ty msg \<Rightarrow> (Inl (OtherException ty msg), True, cb)
         | ApiRaisesBase ty msg \<Rightarrow> (Inl (BaseExceptionOnly ty msg), True, cb)
         | ApiReturns choices \<Rightarrow>
             (let cb1 = record_success cb in
              case choices of
                [] \<Rightarrow> (Inl (OtherException ''IndexError'' ''list index out of range''), True, cb1)
              | content # _ \<Rightarrow>
                  (case content of
                     None \<Rightarrow> (Inl (OtherException ''AttributeError'' none_strip_message), True, cb1)
                   | Some text \<Rightarrow>
                       (Inr \<lparr> code = py_strip (remove_code_fence (py_strip text)),
                              explanation = ''Generated React component based on: '' @ prompt \<rparr>,
                        True, cb1)))))"

definition generate_ui_code_attempt ::
  "LLMService \<Rightarrow> string \<Rightarrow> attempt_env \<Rightarrow> CircuitBreaker \<Rightarrow> (exn + gen_result) \<times> bool \<times> CircuitBreaker" where
  "generate_ui_code_attempt svc prompt env cb =
     (case can_execute (check_time env) cb of
        (allowed, cb1) \<Rightarrow>
          if \<not> allowed then (Inl (CircuitBreakerOpenError breaker_open_message), False, cb1)
          else
            (case try_block svc prompt env cb1 of
               (Inr r, called, cb2) \<Rightarrow> (Inr r, called, cb2)
             | (Inl e, called, cb2) \<Rightarrow>
                 if is_Exception e then
                   (Inl (LLMServiceError (''Failed to generate UI code: '' @ str_of e)),
                    called, record_failure (failure_time env) cb2)
                 else (Inl e, called, cb2)))"

text \<open>What the caller sees when the API key is not configured.\<close>

definition missing_key_error :: exn where
  "missing_key_error = LLMServiceError ''Failed to generate UI code: OpenAI API key not configured''"

subsection \<open>The retry decorator\<close>

text \<open>
  \<open>@retry(stop=stop_after_attempt(3), wait=wait_exponential(multiplier=1, min=1, max=10),
  retry=retry_if_exception_type(LLMServiceError), reraise=True)\<close>, by the semantics of the
  tenacity library: attempts are numbered from 1; an exception that does not pass the
  \<open>retry\<close> test propagates at once; one that passes is re-raised when the attempt number
  has reached 3, and otherwise the decorator sleeps
  \<open>max(max(0, min), min(multiplier * 2 ** (attempt_number - 1), max))\<close> seconds and calls
  the function again. The environment of attempt \<open>n\<close> is \<open>env n\<close>. The sleep between
  two attempts is taken to run to its end.
\<close>

definition stop_after_attempt :: nat where
  "stop_after_attempt = 3"

definition wait_exponential :: "nat \<Rightarrow> int" where
  "wait_exponential attempt_number = max (max 0 1) (min (1 * 2 ^ (attempt_number - 1)) 10)"

record call_report =
  outcome :: "exn + gen_result"
  attempts :: nat
  api_calls :: nat
  sleeps :: "int list"
  breaker :: CircuitBreaker

function retry_from ::
  "nat \<Rightarrow> LLMService \<Rightarrow> string \<Rightarrow> (nat \<Rightarrow> attempt_env) \<Rightarrow> CircuitBreaker \<Rightarrow> call_report" where
  "retry_from n svc prompt env cb =
     (let a = generate_ui_code_attempt svc prompt (env n) cb;
          called = (if fst (snd a) then 1 else 0);
          cb1 = snd (snd a)
      in case fst a of
           Inr r \<Rightarrow>
             \<lparr> outcome = Inr r, attempts = 1, api_calls = called, sleeps = [], breaker = cb1 \<rparr>
         | Inl e \<Rightarrow>
             if \<not> is_LLMServiceError e \<or> n \<ge> stop_after_attempt then
               \<lparr> outcome = Inl e, attempts = 1, api_calls = called, sleeps = [], breaker = cb1 \<rparr>
             else
               (let r = retry_from (Suc n) svc prompt env cb1
                in r\<lparr> attempts := Suc (attempts r),
                      api_calls := called + api_calls r,
                      sleeps := wait_exponential n # sleeps r \<rparr>))"
  by pat_completeness auto
termination
  by (relation "measure (\<lambda>(n, svc, prompt, env, cb). stop_after_attempt - n)") auto

declare retry_from.simps [simp del]

definition generate_ui_code ::
  "LLMService \<Rightarrow> string \<Rightarrow> (nat \<Rightarrow> attempt_env) \<Rightarrow> CircuitBreaker \<Rightarrow> call_report" where
  "generate_ui_code svc prompt env cb = retry_from 1 svc prompt env cb"


section \<open>Job orchestration (backend/server.py)\<close>

text \<open>
  A document of the \<open>generations\<close> collection. The field \<open>explanation\<close> of the document is
  named \<open>doc_explanation\<close> here, \<open>prompt\<close> is \<open>doc_prompt\<close>. The collection is a list of
  documents; \<open>update_one\<close> with the filter \<open>{"job_id": job_id}\<close> changes the first document
  that matches, and nothing when none does.
\<close>

record generation_doc =
  job_id :: string
  doc_prompt :: string
  status :: string
  generated_code :: "string option"
  doc_explanation :: "string option"
  error_message :: "string option"
  user_id :: string
  created_at :: string
  updated_at :: string

fun find_one :: "string \<Rightarrow> generation_doc list \<Rightarrow> generation_doc option" where
  "find_one jid [] = None"
| "find_one jid (d # ds) = (if job_id d = jid then Some d else find_one jid ds)"

fun update_one ::
  "string \<Rightarrow> (generation_doc \<Rightarrow> generation_doc) \<Rightarrow> generation_doc list \<Rightarrow> generation_doc list" where
  "update_one jid f [] = []"
| "update_one jid f (d # ds) = (if job_id d = jid then f d # ds else d # update_one jid f ds)"

text \<open>The three \<open>$set\<close> updates of \<open>process_generation\<close>, each with its \<open>updated_at\<close> text.\<close>

datatype job_update =
    SetRunning string
  | SetSuccess string string string
  | SetFailed string string

fun apply_update :: "job_update \<Rightarrow> generation_doc \<Rightarrow> generation_doc" where
  "apply_update (SetRunning ts) d = d\<lparr> status := ''running'', updated_at := ts \<rparr>"
| "apply_update (SetSuccess c e ts) d =
     d\<lparr> status := ''success'', generated_code := Some c, doc_explanation := Some e,
        updated_at := ts \<rparr>"
| "apply_update (SetFailed m ts) d =
     d\<lparr> status := ''failed'', error_message := Some m, updated_at := ts \<rparr>"

fun is_terminal :: "job_update \<Rightarrow> bool" where
  "is_terminal (SetRunning ts) = False"
| "is_terminal (SetSuccess c e ts) = True"
| "is_terminal (SetFailed m ts) = True"

text \<open>
  The document that \<open>generate_ui\<close> inserts before it schedules the background task.
\<close>

definition pending_doc :: "string \<Rightarrow> string \<Rightarrow> string \<Rightarrow> string \<Rightarrow> generation_doc" where
  "pending_doc jid prompt ts1 ts2 =
     \<lparr> job_id = jid, doc_prompt = prompt, status = ''pending'', generated_code = None,
       doc_explanation = None, error_message = None, user_id = ''default_user'',
       created_at = ts1, updated_at = ts2 \<rparr>"

definition insert_one :: "generation_doc \<Rightarrow> generation_doc list \<Rightarrow> generation_doc list" where
  "insert_one d db = db @ [d]"

text \<open>
  The environment of one run of \<open>process_generation\<close>. Each of the three awaited
  \<open>update_one\<close> calls talks to the database and either applies its update or raises
  (\<open>Some e\<close>) without applying it, where \<open>e\<close> is an \<open>Exception\<close> of the driver or, when
  the task is cancelled during the await, a \<open>CancelledError\<close>; the \<open>..._at\<close> fields are
  the texts of \<open>datetime.now(timezone.utc).isoformat()\<close>; \<open>llm_env\<close> is the environment
  of the attempts of \<open>generate_ui_code\<close>.
\<close>

record job_env =
  running_write_raises :: "exn option"
  running_at :: string
  llm_env :: "nat \<Rightarrow> attempt_env"
  success_write_raises :: "exn option"
  success_at :: string
  failed_write_raises :: "exn option"
  failed_at :: string

text \<open>
  The report of a run: the exception that left the task (\<open>None\<close> when it returned), the
  updates that were applied in order, the collection and the breaker afterwards.
\<close>

record job_report =
  propagated :: "exn option"
  writes :: "job_update list"
  store :: "generation_doc list"
  breaker_after :: CircuitBreaker

text \<open>The \<open>except Exception as e\<close> handler: one \<open>update_one\<close>, outside any \<open>try\<close>.\<close>

definition on_exception ::
  "string \<Rightarrow> job_env \<Rightarrow> exn \<Rightarrow> job_update list \<Rightarrow> generation_doc list \<Rightarrow> CircuitBreaker \<Rightarrow> job_report" where
  "on_exception jid env e ws db cb =
     (case failed_write_raises env of
        Some e2 \<Rightarrow> \<lparr> propagated = Some e2, writes = ws, store = db, breaker_after = cb \<rparr>
      | None \<Rightarrow>
          (let u = SetFailed (str_of e) (failed_at env)
           in \<lparr> propagated = None, writes = ws @ [u],
                store = update_one jid (apply_update u) db, breaker_after = cb \<rparr>))"

text \<open>
  An exception \<open>e\<close> raised inside the \<open>try\<close> block of \<open>process_generation\<close>: the clause
  \<open>except Exception\<close> runs the handler when \<open>e\<close> is an \<open>Exception\<close>; any other exception
  leaves the task at once, and nothing more is written.
\<close>

definition raised_in_try ::
  "string \<Rightarrow> job_env \<Rightarrow> exn \<Rightarrow> job_update list \<Rightarrow> generation_doc list \<Rightarrow> CircuitBreaker \<Rightarrow> job_report" where
  "raised_in_try jid env e ws db cb =
     (if is_Exception e then on_exception jid env e ws db cb
      else \<lparr> propagated = Some e, writes = ws, store = db, breaker_after = cb \<rparr>)"

definition process_generation ::
  "LLMService \<Rightarrow> string \<Rightarrow> string \<Rightarrow> job_env \<Rightarrow> CircuitBreaker \<Rightarrow> generation_doc list \<Rightarrow> job_report" where
  "process_generation svc jid prompt env cb db =
     (case running_write_raises env of
        Some e \<Rightarrow> raised_in_try jid env e [] db cb
      | None \<Rightarrow>
          (let u1 = SetRunning (running_at env);
               db1 = update_one jid (apply_update u1) db;
               rep = generate_ui_code svc prompt (llm_env env) cb
           in case outcome rep of
                Inl e \<Rightarrow> raised_in_try jid env e [u1] db1 (breaker rep)
              | Inr result \<Rightarrow>
                  (case success_write_raises env of
                     Some e \<Rightarrow> raised_in_try jid env e [u1] db1 (breaker rep)
                   | None \<Rightarrow>
                       (let u2 = SetSuccess (code result) (explanation result) (success_at env)
                        in \<lparr> propagated = None, writes = [u1, u2],
                             store = update_one jid (apply_update u2) db1,
                             breaker_after = breaker rep \<rparr>))))"

section \<open>Concrete inputs\<close>

text \<open>
  The scenario of the specification for the breaker: threshold 2, timeout 1; and for the
  rate limiter: the default of 10 requests per minute.
\<close>

definition breaker_example :: CircuitBreaker where
  "breaker_example = init_breaker (Some 2) (Some 1) ''llm_service'' 5 60"

definition open_example :: CircuitBreaker where
  "open_example = breaker_example\<lparr> failure_count := 2, last_failure_time := Some 11, state := OPEN \<rparr>"

definition half_open_example :: CircuitBreaker where
  "half_open_example = half_open_circuit open_example"

definition calls_example :: "breaker_call list" where
  "calls_example =
     [RecordFailure 10, RecordFailure 11, CanExecute (23 / 2), CanExecute 12,
      RecordSuccess, RecordSuccess, RecordFailure 13]"

definition limiter_example :: RateLimiter where
  "limiter_example = init_rate_limiter 10"

definition used_limiter_example :: RateLimiter where
  "used_limiter_example = limiter_example\<lparr> requests := (requests limiter_example)(''10.0.0.1'' := [5, 6, 7]) \<rparr>"

text \<open>
  For the LLM service: a service without and with an API key, the breaker of the
  module with its defaults (threshold 5, timeout 60), the same breaker after it opened at
  time 100, and an environment in which attempt \<open>n\<close> runs at time \<open>100 + n\<close> and the remote
  call returns the text \<open>x\<close>.
\<close>

definition svc_nokey :: LLMService where
  "svc_nokey = \<lparr> api_key = None, model = ''gpt-4o'' \<rparr>"

definition svc_key :: LLMService where
  "svc_key = \<lparr> api_key = Some ''sk-test'', model = ''gpt-4o'' \<rparr>"

definition default_breaker :: CircuitBreaker where
  "default_breaker = init_breaker None None ''llm_service'' 5 60"

definition open_default :: CircuitBreaker where
  "open_default = default_breaker\<lparr> failure_count := 5, last_failure_time := Some 100, state := OPEN \<rparr>"

definition attempts_example :: "nat \<Rightarrow> attempt_env" where
  "attempts_example n =
     \<lparr> check_time = 100 + real n, api = ApiReturns [Some ''x''], failure_time = 100 + real n \<rparr>"

text \<open>
  For the background task: a collection holding the pending document of job \<open>job-1\<close>, an
  environment in which every database write succeeds, and one in which the database is
  unreachable, so that every \<open>update_one\<close> raises.
\<close>

definition db_example :: "generation_doc list" where
  "db_example =
     insert_one (pending_doc ''job-1'' ''a button'' ''2025-01-01T00:00:00+00:00''
                   ''2025-01-01T00:00:00+00:00'') []"

definition job_env_ok :: job_env where
  "job_env_ok =
     \<lparr> running_write_raises = None, running_at = ''2025-01-01T00:00:01+00:00'',
       llm_env = attempts_example,
       success_write_raises = None, success_at = ''2025-01-01T00:00:02+00:00'',
       failed_write_raises = None, failed_at = ''2025-01-01T00:00:03+00:00'' \<rparr>"

definition db_unreachable :: exn where
  "db_unreachable = OtherException ''ServerSelectionTimeoutError'' ''localhost:27017: connection refused''"

definition job_env_db_down :: job_env where
  "job_env_db_down =
     job_env_ok\<lparr> running_write_raises := Some db_unreachable,
                 success_write_raises := Some db_unreachable,
                 failed_write_raises := Some db_unreachable \<rparr>"

text \<open>
  A cancellation of the task while it awaits the remote call of the first attempt.
\<close>

definition cancelled :: exn where
  "cancelled = BaseExceptionOnly ''CancelledError'' []"

definition attempts_cancelled :: "nat \<Rightarrow> attempt_env" where
  "attempts_cancelled n =
     \<lparr> check_time = 100 + real n, api = ApiRaisesBase ''CancelledError'' [],
       failure_time = 100 + real n \<rparr>"

definition job_env_cancelled :: job_env where
  "job_env_cancelled = job_env_ok\<lparr> llm_env := attempts_cancelled \<rparr>"

section \<open>Properties of the circuit breaker\<close>

lemma record_failure_below:
  assumes "state cb = CLOSED" and "failure_count cb + 1 < failure_threshold cb"
  shows "record_failure t cb =
           cb\<lparr> failure_count := failure_count cb + 1, last_failure_time := Some t \<rparr>"
  using assms by (simp add: record_failure_def Let_def)

lemma record_failure_reach:
  assumes "state cb = CLOSED" and "failure_count cb + 1 \<ge> failure_threshold cb"
  shows "record_failure t cb =
           cb\<lparr> failure_count := failure_count cb + 1, last_failure_time := Some t,
               state := OPEN, success_count := 0 \<rparr>"
  using assms by (simp add: record_failure_def Let_def open_circuit_def)

lemma record_failures_below:
  assumes "state cb = CLOSED"
      and "failure_count cb + int (length ts) < failure_threshold cb"
  shows "state (record_failures ts cb) = CLOSED
       \<and> failure_count (record_failures ts cb) = failure_count cb + int (length ts)
       \<and> failure_threshold (record_failures ts cb) = failure_threshold cb
       \<and> timeout_seconds (record_failures ts cb) = timeout_seconds cb"
  using assms
proof (induction ts arbitrary: cb)
  case Nil
  then show ?case by simp
next
  case (Cons t ts)
  have lt: "failure_count cb + 1 < failure_threshold cb" using Cons.prems by simp
  let ?cb1 = "record_failure t cb"
  have e: "?cb1 = cb\<lparr> failure_count := failure_count cb + 1, last_failure_time := Some t \<rparr>"
    using record_failure_below[OF Cons.prems(1) lt] .
  have s1: "state ?cb1 = CLOSED" using e Cons.prems(1) by simp
  have c1: "failure_count ?cb1 + int (length ts) < failure_threshold ?cb1"
    using e Cons.prems(2) by simp
  from Cons.IH[OF s1 c1] show ?case using e by simp
qed

lemma record_failures_snoc:
  "record_failures (ts @ [t]) cb = record_failure t (record_failures ts cb)"
  by (induction ts arbitrary: cb) simp_all

text \<open>
  Claim C4. A breaker that is CLOSED with \<open>failure_count = 0\<close> and a positive threshold
  receives as many consecutive \<open>record_failure\<close> calls as its threshold (\<open>ts\<close> holds the
  clock readings of the calls). After every proper prefix of the calls it is still CLOSED;
  after the last call it is OPEN; and a \<open>can_execute\<close> made at a time \<open>now\<close> with less
  than \<open>timeout_seconds\<close> elapsed since the last failure returns \<open>False\<close> and leaves the
  breaker as it is.
\<close>

theorem threshold_failures_open_once:
  assumes closed: "state cb = CLOSED"
      and zero: "failure_count cb = 0"
      and len: "int (length ts) = failure_threshold cb"
      and pos: "0 < failure_threshold cb"
      and early: "now - last ts < real_of_int (timeout_seconds cb)"
  shows "(\<forall>k < length ts. state (record_failures (take k ts) cb) = CLOSED)
       \<and> state (record_failures ts cb) = OPEN
       \<and> can_execute now (record_failures ts cb) = (False, record_failures ts cb)"
proof -
  have before: "state (record_failures (take k ts) cb) = CLOSED" if "k < length ts" for k
  proof -
    have "failure_count cb + int (length (take k ts)) < failure_threshold cb"
      using that zero len by simp
    from record_failures_below[OF closed this] show ?thesis by simp
  qed
  have ne: "ts \<noteq> []" using len pos by auto
  then obtain us t where ts: "ts = us @ [t]" by (metis append_butlast_last_id)
  let ?m = "record_failures us cb"
  have "failure_count cb + int (length us) < failure_threshold cb"
    using ts zero len by simp
  from record_failures_below[OF closed this]
  have m: "state ?m = CLOSED" "failure_count ?m = int (length us)"
     "failure_threshold ?m = failure_threshold cb" "timeout_seconds ?m = timeout_seconds cb"
    using zero by simp_all
  have reach: "failure_count ?m + 1 \<ge> failure_threshold ?m" using m ts len by simp
  have fin: "record_failures ts cb =
     ?m\<lparr> failure_count := failure_count ?m + 1, last_failure_time := Some t,
         state := OPEN, success_count := 0 \<rparr>"
    unfolding ts record_failures_snoc using record_failure_reach[OF m(1) reach] .
  have op: "state (record_failures ts cb) = OPEN" by (simp add: fin)
  have lt: "last ts = t" using ts by simp
  have "\<not> timeout_passed now (record_failures ts cb)"
    using early lt m(4) by (simp add: fin timeout_passed_def)
  then have "can_execute now (record_failures ts cb) = (False, record_failures ts cb)"
    using op by (simp add: can_execute_def)
  with before op show ?thesis by blast
qed

theorem threshold_failures_open_once_witness:
  "state breaker_example = CLOSED \<and> failure_count breaker_example = 0
   \<and> int (length [10, 11 :: real]) = failure_threshold breaker_example
   \<and> 0 < failure_threshold breaker_example
   \<and> 23 / 2 - last [10, 11 :: real] < real_of_int (timeout_seconds breaker_example)
   \<and> state (record_failures (take 1 [10, 11]) breaker_example) = CLOSED
   \<and> state (record_failures [10, 11] breaker_example) = OPEN
   \<and> can_execute (23 / 2) (record_failures [10, 11] breaker_example)
        = (False, record_failures [10, 11] breaker_example)"
proof -
  have h1: "state breaker_example = CLOSED"
    by (simp add: breaker_example_def init_breaker_def)
  have h2: "failure_count breaker_example = 0"
    by (simp add: breaker_example_def init_breaker_def)
  have h3: "int (length [10, 11 :: real]) = failure_threshold breaker_example"
    by (simp add: breaker_example_def init_breaker_def py_or_int_def)
  have h4: "0 < failure_threshold breaker_example"
    by (simp add: breaker_example_def init_breaker_def py_or_int_def)
  have h5: "23 / 2 - last [10, 11 :: real] < real_of_int (timeout_seconds breaker_example)"
    by (simp add: breaker_example_def init_breaker_def py_or_int_def)
  note c = threshold_failures_open_once[OF h1 h2 h3 h4 h5]
  have k: "(1::nat) < length [10, 11 :: real]" by simp
  have c1: "state (record_failures (take 1 [10, 11]) breaker_example) = CLOSED"
    using c k by blast
  show ?thesis using h1 h2 h3 h4 h5 c c1 by blast
qed

text \<open>
  Claim C5. For a breaker in state OPEN whose last failure was at time \<open>t\<close>: while less
  than \<open>timeout_seconds\<close> have elapsed since \<open>t\<close>, \<open>can_execute\<close> returns \<open>False\<close> and
  leaves the breaker unchanged (so OPEN); once at least \<open>timeout_seconds\<close> have elapsed,
  it returns \<open>True\<close> and the breaker is HALF\_OPEN with \<open>success_count = 0\<close>. The time
  \<open>t\<close> is a reading of \<open>time.time()\<close>, which is not \<open>0.0\<close>; the source tests
  \<open>last_failure_time\<close> for truth before it compares.
\<close>

theorem open_breaker_waits_for_timeout:
  assumes "state cb = OPEN" and "last_failure_time cb = Some t" and "t \<noteq> 0"
  shows "(now - t < real_of_int (timeout_seconds cb) \<longrightarrow> can_execute now cb = (False, cb))
       \<and> (real_of_int (timeout_seconds cb) \<le> now - t \<longrightarrow>
            can_execute now cb = (True, cb\<lparr> state := HALF_OPEN, success_count := 0 \<rparr>))"
  using assms by (simp add: can_execute_def timeout_passed_def half_open_circuit_def)

theorem open_breaker_waits_for_timeout_witness:
  "state open_example = OPEN \<and> last_failure_time open_example = Some 11 \<and> (11::real) \<noteq> 0
   \<and> 23 / 2 - 11 < real_of_int (timeout_seconds open_example)
   \<and> can_execute (23 / 2) open_example = (False, open_example)
   \<and> real_of_int (timeout_seconds open_example) \<le> 12 - 11
   \<and> can_execute 12 open_example = (True, open_example\<lparr> state := HALF_OPEN, success_count := 0 \<rparr>)"
proof -
  have h1: "state open_example = OPEN" by (simp add: open_example_def)
  have h2: "last_failure_time open_example = Some 11" by (simp add: open_example_def)
  have h3: "(11::real) \<noteq> 0" by simp
  have g1: "23 / 2 - 11 < real_of_int (timeout_seconds open_example)"
    by (simp add: open_example_def breaker_example_def init_breaker_def py_or_int_def)
  have g2: "real_of_int (timeout_seconds open_example) \<le> 12 - 11"
    by (simp add: open_example_def breaker_example_def init_breaker_def py_or_int_def)
  have c1: "can_execute (23 / 2) open_example = (False, open_example)"
    using open_breaker_waits_for_timeout[OF h1 h2 h3, of "23 / 2"] g1 by blast
  have c2: "can_execute 12 open_example
              = (True, open_example\<lparr> state := HALF_OPEN, success_count := 0 \<rparr>)"
    using open_breaker_waits_for_timeout[OF h1 h2 h3, of 12] g2 by blast
  show ?thesis using h1 h2 h3 g1 g2 c1 c2 by blast
qed

text \<open>
  Claim C6. For a breaker that is HALF\_OPEN with no success counted yet (as
  \<open>_half_open_circuit\<close> leaves it): one \<open>record_failure\<close> makes it OPEN; one
  \<open>record_success\<close> leaves it HALF\_OPEN; two consecutive \<open>record_success\<close> calls make it
  CLOSED with \<open>failure_count = 0\<close> and \<open>success_count = 0\<close>.
\<close>

theorem half_open_transitions:
  assumes "state cb = HALF_OPEN" and "success_count cb = 0"
  shows "state (record_failure now cb) = OPEN
       \<and> state (record_success cb) = HALF_OPEN
       \<and> state (record_success (record_success cb)) = CLOSED
       \<and> failure_count (record_success (record_success cb)) = 0
       \<and> success_count (record_success (record_success cb)) = 0"
  using assms
  by (simp add: record_failure_def record_success_def open_circuit_def close_circuit_def Let_def)

theorem half_open_transitions_witness:
  "state half_open_example = HALF_OPEN \<and> success_count half_open_example = 0
   \<and> state (record_failure 13 half_open_example) = OPEN
   \<and> state (record_success half_open_example) = HALF_OPEN
   \<and> state (record_success (record_success half_open_example)) = CLOSED
   \<and> failure_count (record_success (record_success half_open_example)) = 0
   \<and> success_count (record_success (record_success half_open_example)) = 0"
proof -
  have h1: "state half_open_example = HALF_OPEN"
    by (simp add: half_open_example_def half_open_circuit_def)
  have h2: "success_count half_open_example = 0"
    by (simp add: half_open_example_def half_open_circuit_def)
  show ?thesis using h1 h2 half_open_transitions[OF h1 h2, of 13] by blast
qed

lemma step_edge:
  "state (breaker_step c cb) = state cb \<or> allowed_edge (state cb) (state (breaker_step c cb))"
  by (cases c; cases "state cb")
     (simp_all add: can_execute_def record_success_def record_failure_def open_circuit_def
        close_circuit_def half_open_circuit_def allowed_edge_def Let_def)

lemma breaker_trace_head: "\<exists>rest. breaker_trace cs cb = cb # rest"
  by (cases cs) simp_all

text \<open>
  Claim C7. Along every sequence of \<open>can_execute\<close>, \<open>record_success\<close> and
  \<open>record_failure\<close> calls, from any breaker (so also from one that starts CLOSED), each
  call either leaves the \<open>state\<close> field as it was or moves it along one of the four edges
  CLOSED to OPEN, OPEN to HALF\_OPEN, HALF\_OPEN to CLOSED, HALF\_OPEN to OPEN.
\<close>

theorem breaker_only_four_edges: "edges_ok (map state (breaker_trace calls cb))"
proof (induction calls arbitrary: cb)
  case Nil
  then show ?case by simp
next
  case (Cons c cs)
  obtain rest where r: "breaker_trace cs (breaker_step c cb) = breaker_step c cb # rest"
    using breaker_trace_head by blast
  have "edges_ok (map state (breaker_step c cb # rest))"
    using Cons.IH[of "breaker_step c cb"] r by simp
  then show ?case using r step_edge[of c cb] by auto
qed

theorem breaker_only_four_edges_witness:
  "edges_ok (map state (breaker_trace calls_example breaker_example))"
  by (rule breaker_only_four_edges)

section \<open>Properties of the rate limiter\<close>

lemma check_rate_limit_admit:
  assumes fresh: "\<forall>x\<in>set (requests rl ident). cln - real_of_int w < x"
      and room: "int (length (requests rl ident)) < py_or_int mx (max_requests_per_minute rl)"
  shows "check_rate_limit cur cln ident mx w rl =
           ((True, py_or_int mx (max_requests_per_minute rl) - int (length (requests rl ident)) - 1),
            rl\<lparr> requests := (requests rl)(ident := requests rl ident @ [cur]) \<rparr>)"
proof -
  have f: "filter (\<lambda>ts. ts > cln - real_of_int w) (requests rl ident) = requests rl ident"
    using fresh by (simp add: filter_id_conv)
  show ?thesis using room
    by (simp add: check_rate_limit_def clean_old_requests_def Let_def f)
qed

lemma check_rate_limit_reject:
  assumes fresh: "\<forall>x\<in>set (requests rl ident). cln - real_of_int w < x"
      and full: "py_or_int mx (max_requests_per_minute rl) \<le> int (length (requests rl ident))"
  shows "check_rate_limit cur cln ident mx w rl = ((False, 0), rl)"
proof -
  have f: "filter (\<lambda>ts. ts > cln - real_of_int w) (requests rl ident) = requests rl ident"
    using fresh by (simp add: filter_id_conv)
  show ?thesis using full
    by (simp add: check_rate_limit_def clean_old_requests_def Let_def f)
qed

lemma check_rate_limit_stale:
  assumes stale: "\<forall>x\<in>set (requests rl ident). x \<le> cln - real_of_int w"
  shows "check_rate_limit cur cln ident mx w rl =
         check_rate_limit cur cln ident mx w (rl\<lparr> requests := (requests rl)(ident := []) \<rparr>)"
proof -
  have f: "filter (\<lambda>ts. ts > cln - real_of_int w) (requests rl ident) = []"
    using stale by (auto simp: filter_empty_conv)
  show ?thesis
    by (simp add: check_rate_limit_def clean_old_requests_def Let_def f)
qed

lemma check_many_fresh:
  assumes "\<forall>x\<in>set (requests rl ident). T - real_of_int w < x"
      and "\<forall>t\<in>set calls. T - real_of_int w < fst t \<and> snd t \<le> T"
      and "int (length (requests rl ident)) + int (length calls) \<le> py_or_int mx (max_requests_per_minute rl)"
  shows "check_many calls ident mx w rl =
          (map (\<lambda>k. (True, py_or_int mx (max_requests_per_minute rl) - int (length (requests rl ident)) - int k))
               [1..<Suc (length calls)],
           rl\<lparr> requests := (requests rl)(ident := requests rl ident @ map fst calls) \<rparr>)"
  using assms
proof (induction calls arbitrary: rl)
  case Nil
  then show ?case by simp
next
  case (Cons t calls)
  let ?mr = "py_or_int mx (max_requests_per_minute rl)"
  let ?rl1 = "rl\<lparr> requests := (requests rl)(ident := requests rl ident @ [fst t]) \<rparr>"
  have fr: "\<forall>x\<in>set (requests rl ident). snd t - real_of_int w < x"
    using Cons.prems(1,2) by fastforce
  have room: "int (length (requests rl ident)) < ?mr" using Cons.prems(3) by simp
  have step: "check_rate_limit (fst t) (snd t) ident mx w rl =
      ((True, ?mr - int (length (requests rl ident)) - 1), ?rl1)"
    using check_rate_limit_admit[OF fr room] .
  have a1: "\<forall>x\<in>set (requests ?rl1 ident). T - real_of_int w < x"
    using Cons.prems(1,2) by simp
  have a2: "\<forall>t\<in>set calls. T - real_of_int w < fst t \<and> snd t \<le> T"
    using Cons.prems(2) by simp
  have a3: "int (length (requests ?rl1 ident)) + int (length calls) \<le> py_or_int mx (max_requests_per_minute ?rl1)"
    using Cons.prems(3) by simp
  have st: "?rl1\<lparr> requests := (requests ?rl1)(ident := requests ?rl1 ident @ map fst calls) \<rparr>
      = rl\<lparr> requests := (requests rl)(ident := requests rl ident @ map fst (t # calls)) \<rparr>"
    by (simp add: fun_eq_iff)
  have ih: "check_many calls ident mx w ?rl1 =
      (map (\<lambda>k. (True, ?mr - int (length (requests ?rl1 ident)) - int k)) [1..<Suc (length calls)],
       rl\<lparr> requests := (requests rl)(ident := requests rl ident @ map fst (t # calls)) \<rparr>)"
    using Cons.IH[OF a1 a2 a3] unfolding st by simp
  have shift: "map (\<lambda>k. (True, ?mr - int (length (requests rl ident)) - int k)) [1..<Suc (length (t # calls))]
     = (True, ?mr - int (length (requests rl ident)) - 1) #
       map (\<lambda>k. (True, ?mr - int (length (requests ?rl1 ident)) - int k)) [1..<Suc (length calls)]"
  proof -
    have "[1..<Suc (length (t # calls))] = 1 # map Suc [1..<Suc (length calls)]"
      by (simp add: upt_conv_Cons map_Suc_upt del: upt_Suc)
    then show ?thesis by (simp add: comp_def del: upt_Suc)
  qed
  have "check_many (t # calls) ident mx w rl =
      (case check_many calls ident mx w ?rl1 of
         (rs, rl2) \<Rightarrow> ((True, ?mr - int (length (requests rl ident)) - 1) # rs, rl2))"
    by (simp only: check_many.simps step prod.case)
  also have "\<dots> = ((True, ?mr - int (length (requests rl ident)) - 1) #
       map (\<lambda>k. (True, ?mr - int (length (requests ?rl1 ident)) - int k)) [1..<Suc (length calls)],
       rl\<lparr> requests := (requests rl)(ident := requests rl ident @ map fst (t # calls)) \<rparr>)"
    by (simp only: ih prod.case)
  finally show ?case by (simp only: shift)
qed


lemma check_many_stale_head:
  assumes "\<forall>x\<in>set (requests rl ident). x \<le> snd t - real_of_int w"
  shows "check_many (t # cs) ident mx w rl =
         check_many (t # cs) ident mx w (rl\<lparr> requests := (requests rl)(ident := []) \<rparr>)"
  by (simp only: check_many.simps check_rate_limit_stale[OF assms])

text \<open>
  Claim C8. With a limit \<open>m \<ge> 1\<close>, exactly \<open>m\<close> calls for one identifier are made
  within one window: all readings of the clock in these calls and in one further call lie
  in an interval \<open>(T - window_seconds, T]\<close>, and no timestamp stored earlier for the
  identifier is still inside the window at any of the calls. Then the \<open>k\<close>-th call
  (counted from 1) returns \<open>(True, m - k)\<close>, the last of them returns remaining \<open>0\<close>,
  and the further call returns \<open>(False, 0)\<close> and leaves the limiter, with its timestamp
  list, exactly as it was.
\<close>

theorem limit_admits_exactly_max_requests:
  assumes m1: "1 \<le> m"
      and len: "int (length calls) = m"
      and window: "\<forall>t\<in>set (calls @ [extra]). T - real_of_int w < fst t \<and> snd t \<le> T"
      and stale: "\<forall>x\<in>set (requests rl ident). \<forall>t\<in>set (calls @ [extra]). x \<le> snd t - real_of_int w"
  shows "fst (check_many calls ident (Some m) w rl) = map (\<lambda>k. (True, m - int k)) [1..<Suc (length calls)]
       \<and> snd (last (fst (check_many calls ident (Some m) w rl))) = 0
       \<and> check_rate_limit (fst extra) (snd extra) ident (Some m) w
            (snd (check_many calls ident (Some m) w rl))
          = ((False, 0), snd (check_many calls ident (Some m) w rl))"
proof -
  let ?rl0 = "rl\<lparr> requests := (requests rl)(ident := []) \<rparr>"
  let ?rlF = "?rl0\<lparr> requests := (requests ?rl0)(ident := requests ?rl0 ident @ map fst calls) \<rparr>"
  have mr: "py_or_int (Some m) d = m" for d using m1 by (simp add: py_or_int_def)
  obtain t cs where calls: "calls = t # cs" using m1 len by (cases calls) auto
  have "\<forall>x\<in>set (requests rl ident). x \<le> snd t - real_of_int w"
    using stale calls by simp
  then have e0: "check_many calls ident (Some m) w rl = check_many calls ident (Some m) w ?rl0"
    unfolding calls by (rule check_many_stale_head)
  have f1: "\<forall>x\<in>set (requests ?rl0 ident). T - real_of_int w < x" by simp
  have f2: "\<forall>t\<in>set calls. T - real_of_int w < fst t \<and> snd t \<le> T" using window by simp
  have f3: "int (length (requests ?rl0 ident)) + int (length calls)
              \<le> py_or_int (Some m) (max_requests_per_minute ?rl0)"
    using len by (simp add: mr)
  have run: "check_many calls ident (Some m) w rl =
        (map (\<lambda>k. (True, m - int k)) [1..<Suc (length calls)], ?rlF)"
    using check_many_fresh[OF f1 f2 f3] by (simp add: e0 mr)
  have r1: "fst (check_many calls ident (Some m) w rl) = map (\<lambda>k. (True, m - int k)) [1..<Suc (length calls)]"
    by (simp add: run)
  have r2: "snd (last (fst (check_many calls ident (Some m) w rl))) = 0"
  proof -
    have "1 \<le> length calls" using len m1 by simp
    then show ?thesis using len by (simp add: r1)
  qed
  have g1: "\<forall>x\<in>set (requests ?rlF ident). snd extra - real_of_int w < x"
    using window by fastforce
  have g2: "py_or_int (Some m) (max_requests_per_minute ?rlF) \<le> int (length (requests ?rlF ident))"
    using len by (simp add: mr)
  have r3: "check_rate_limit (fst extra) (snd extra) ident (Some m) w ?rlF = ((False, 0), ?rlF)"
    using check_rate_limit_reject[OF g1 g2] .
  show ?thesis using r1 r2 r3 by (simp add: run)
qed

theorem limit_admits_exactly_max_requests_witness:
  "(1::int) \<le> 3 \<and> int (length [(100, 100), (101, 101), (102, 102 :: real) :: real \<times> real]) = 3
   \<and> fst (check_many [(100, 100), (101, 101), (102, 102)] ''10.0.0.1'' (Some 3) 60
             used_limiter_example)
        = [(True, 2), (True, 1), (True, 0)]
   \<and> check_rate_limit 103 103 ''10.0.0.1'' (Some 3) 60
        (snd (check_many [(100, 100), (101, 101), (102, 102)] ''10.0.0.1'' (Some 3) 60
                used_limiter_example))
        = ((False, 0),
           snd (check_many [(100, 100), (101, 101), (102, 102)] ''10.0.0.1'' (Some 3) 60
                  used_limiter_example))"
proof -
  let ?calls = "[(100, 100), (101, 101), (102, 102)] :: (real \<times> real) list"
  have h1: "(1::int) \<le> 3" by simp
  have h2: "int (length ?calls) = 3" by simp
  have h3: "\<forall>t\<in>set (?calls @ [(103, 103)]). 103 - real_of_int 60 < fst t \<and> snd t \<le> 103"
    by simp
  have h4: "\<forall>x\<in>set (requests used_limiter_example ''10.0.0.1'').
              \<forall>t\<in>set (?calls @ [(103, 103)]). x \<le> snd t - real_of_int 60"
    by (simp add: used_limiter_example_def limiter_example_def init_rate_limiter_def)
  note c = limit_admits_exactly_max_requests[OF h1 h2 h3 h4]
  have u: "map (\<lambda>k. (True, 3 - int k)) [1..<Suc (length ?calls)] = [(True, 2), (True, 1), (True, 0)]"
    by (simp add: upt_rec)
  show ?thesis using h1 h2 c u by simp
qed

text \<open>
  Claim C9. The clock does not run backwards: the reading \<open>cur\<close> of \<open>check_rate_limit\<close>
  is not after the reading \<open>cln\<close> of the cleanup, and the stored timestamps are earlier
  readings. After the cleanup every retained timestamp of the identifier lies in
  \<open>(cln - window_seconds, cln]\<close>, which is inside \<open>[cln - window_seconds, cln]\<close>.
  If at least \<open>window_seconds\<close> have elapsed since every stored timestamp (so since the
  last admitted call), the call gives the same result and the same limiter as a call on an
  empty timestamp list, and with an effective limit of at least 1 it is admitted with
  remaining = limit - 1.
\<close>

theorem window_expires_after_window_seconds:
  assumes mono: "cur \<le> cln"
      and past: "\<forall>x\<in>set (requests rl ident). x \<le> cur"
  shows "(\<forall>x\<in>set (requests (clean_old_requests cln ident w rl) ident).
            cln - real_of_int w < x \<and> x \<le> cln)
       \<and> ((\<forall>x\<in>set (requests rl ident). real_of_int w \<le> cur - x) \<longrightarrow>
            check_rate_limit cur cln ident mx w rl =
              check_rate_limit cur cln ident mx w (rl\<lparr> requests := (requests rl)(ident := []) \<rparr>)
            \<and> (1 \<le> py_or_int mx (max_requests_per_minute rl) \<longrightarrow>
                 fst (check_rate_limit cur cln ident mx w rl) =
                   (True, py_or_int mx (max_requests_per_minute rl) - 1)))"
proof -
  have p1: "\<forall>x\<in>set (requests (clean_old_requests cln ident w rl) ident).
            cln - real_of_int w < x \<and> x \<le> cln"
    using mono past by (auto simp: clean_old_requests_def Let_def)
  have p2: "check_rate_limit cur cln ident mx w rl =
              check_rate_limit cur cln ident mx w (rl\<lparr> requests := (requests rl)(ident := []) \<rparr>)
            \<and> (1 \<le> py_or_int mx (max_requests_per_minute rl) \<longrightarrow>
                 fst (check_rate_limit cur cln ident mx w rl) =
                   (True, py_or_int mx (max_requests_per_minute rl) - 1))"
    if old: "\<forall>x\<in>set (requests rl ident). real_of_int w \<le> cur - x"
  proof -
    have st: "\<forall>x\<in>set (requests rl ident). x \<le> cln - real_of_int w"
      using old mono by fastforce
    have e: "check_rate_limit cur cln ident mx w rl =
              check_rate_limit cur cln ident mx w (rl\<lparr> requests := (requests rl)(ident := []) \<rparr>)"
      using check_rate_limit_stale[OF st] .
    have "fst (check_rate_limit cur cln ident mx w (rl\<lparr> requests := (requests rl)(ident := []) \<rparr>)) =
                   (True, py_or_int mx (max_requests_per_minute rl) - 1)"
      if "1 \<le> py_or_int mx (max_requests_per_minute rl)"
      using that by (simp add: check_rate_limit_def clean_old_requests_def Let_def)
    with e show ?thesis by simp
  qed
  from p1 p2 show ?thesis by blast
qed

theorem window_expires_after_window_seconds_witness:
  "(70::real) \<le> 70
   \<and> check_rate_limit 70 70 ''10.0.0.1'' None 60 used_limiter_example
        = check_rate_limit 70 70 ''10.0.0.1'' None 60
            (used_limiter_example\<lparr> requests := (requests used_limiter_example)(''10.0.0.1'' := []) \<rparr>)
   \<and> fst (check_rate_limit 70 70 ''10.0.0.1'' None 60 used_limiter_example) = (True, 9)"
proof -
  have h1: "(70::real) \<le> 70" by simp
  have h2: "\<forall>x\<in>set (requests used_limiter_example ''10.0.0.1''). x \<le> 70"
    by (simp add: used_limiter_example_def limiter_example_def init_rate_limiter_def)
  have g1: "\<forall>x\<in>set (requests used_limiter_example ''10.0.0.1''). real_of_int 60 \<le> 70 - x"
    by (simp add: used_limiter_example_def limiter_example_def init_rate_limiter_def)
  have g2: "py_or_int None (max_requests_per_minute used_limiter_example) = 10"
    by (simp add: used_limiter_example_def limiter_example_def init_rate_limiter_def py_or_int_def)
  have g3: "1 \<le> py_or_int None (max_requests_per_minute used_limiter_example)"
    by (simp add: g2)
  note c = window_expires_after_window_seconds[OF h1 h2, of 60 None]
  have c1: "check_rate_limit 70 70 ''10.0.0.1'' None 60 used_limiter_example
        = check_rate_limit 70 70 ''10.0.0.1'' None 60
            (used_limiter_example\<lparr> requests := (requests used_limiter_example)(''10.0.0.1'' := []) \<rparr>)"
    using c g1 by blast
  have c2: "fst (check_rate_limit 70 70 ''10.0.0.1'' None 60 used_limiter_example)
        = (True, py_or_int None (max_requests_per_minute used_limiter_example) - 1)"
    using c g1 g3 by blast
  have c3: "fst (check_rate_limit 70 70 ''10.0.0.1'' None 60 used_limiter_example) = (True, 9)"
    using c2 by (simp add: g2)
  show ?thesis using h1 c1 c3 by blast
qed

text \<open>
  Claim C10. A call with \<open>max_requests = 0\<close> is the same as a call with
  \<open>max_requests = None\<close>: the falsy argument falls back to \<open>max_requests_per_minute\<close>.
  With a configured default of at least 1 and an empty window the call is admitted, with
  remaining = default - 1.
\<close>

theorem zero_limit_falls_back_to_default:
  "check_rate_limit cur cln ident (Some 0) w rl = check_rate_limit cur cln ident None w rl
   \<and> (1 \<le> max_requests_per_minute rl \<and> requests rl ident = [] \<longrightarrow>
        fst (check_rate_limit cur cln ident (Some 0) w rl) = (True, max_requests_per_minute rl - 1))"
  by (simp add: check_rate_limit_def clean_old_requests_def py_or_int_def Let_def)

theorem zero_limit_falls_back_to_default_witness:
  "check_rate_limit 1 1 ''10.0.0.1'' (Some 0) 60 limiter_example
     = check_rate_limit 1 1 ''10.0.0.1'' None 60 limiter_example
   \<and> fst (check_rate_limit 1 1 ''10.0.0.1'' (Some 0) 60 limiter_example) = (True, 9)"
proof -
  have g1: "1 \<le> max_requests_per_minute limiter_example"
    by (simp add: limiter_example_def init_rate_limiter_def)
  have g2: "requests limiter_example ''10.0.0.1'' = []"
    by (simp add: limiter_example_def init_rate_limiter_def)
  have g3: "max_requests_per_minute limiter_example - 1 = 9"
    by (simp add: limiter_example_def init_rate_limiter_def)
  note c = zero_limit_falls_back_to_default[of 1 1 "''10.0.0.1''" 60 limiter_example]
  have c1: "check_rate_limit 1 1 ''10.0.0.1'' (Some 0) 60 limiter_example
     = check_rate_limit 1 1 ''10.0.0.1'' None 60 limiter_example"
    using c by blast
  have c2: "fst (check_rate_limit 1 1 ''10.0.0.1'' (Some 0) 60 limiter_example)
     = (True, max_requests_per_minute limiter_example - 1)"
    using c g1 g2 by blast
  have c3: "fst (check_rate_limit 1 1 ''10.0.0.1'' (Some 0) 60 limiter_example) = (True, 9)"
    using c2 by (simp add: g3)
  show ?thesis using c1 c3 by blast
qed

section \<open>Properties of the LLM service\<close>

lemma can_execute_false: "\<not> fst (can_execute now cb) \<Longrightarrow> can_execute now cb = (False, cb)"
  by (simp add: can_execute_def split: if_splits)

lemma attempt_rejected:
  "\<not> fst (can_execute (check_time e) cb) \<Longrightarrow>
   generate_ui_code_attempt svc prompt e cb
     = (Inl (CircuitBreakerOpenError breaker_open_message), False, cb)"
  by (simp add: generate_ui_code_attempt_def can_execute_false)

lemma retry_rejected_more:
  assumes "\<not> fst (can_execute (check_time (env n)) cb)" and "n < 3"
  shows "retry_from n svc prompt env cb =
     (retry_from (Suc n) svc prompt env cb)
       \<lparr> attempts := Suc (attempts (retry_from (Suc n) svc prompt env cb)),
         sleeps := wait_exponential n # sleeps (retry_from (Suc n) svc prompt env cb) \<rparr>"
  using assms
  by (subst retry_from.simps) (simp add: attempt_rejected Let_def stop_after_attempt_def)

lemma retry_rejected_last:
  assumes "\<not> fst (can_execute (check_time (env n)) cb)" and "3 \<le> n"
  shows "retry_from n svc prompt env cb =
     \<lparr> outcome = Inl (CircuitBreakerOpenError breaker_open_message), attempts = 1,
       api_calls = 0, sleeps = [], breaker = cb \<rparr>"
  using assms
  by (subst retry_from.simps) (simp add: attempt_rejected Let_def stop_after_attempt_def)

lemma wait_exponential_values: "wait_exponential 1 = 1" "wait_exponential 2 = 2"
  by (simp_all add: wait_exponential_def)

lemma rejected_three_times:
  assumes a1: "\<not> fst (can_execute (check_time (env 1)) cb)"
      and a2: "\<not> fst (can_execute (check_time (env 2)) cb)"
      and a3: "\<not> fst (can_execute (check_time (env 3)) cb)"
  shows "generate_ui_code svc prompt env cb =
     \<lparr> outcome = Inl (CircuitBreakerOpenError breaker_open_message), attempts = 3,
       api_calls = 0, sleeps = [1, 2], breaker = cb \<rparr>"
proof -
  have r3: "retry_from 3 svc prompt env cb =
     \<lparr> outcome = Inl (CircuitBreakerOpenError breaker_open_message), attempts = 1,
       api_calls = 0, sleeps = [], breaker = cb \<rparr>"
    using retry_rejected_last[where n=3 and env=env and cb=cb, OF a3] by simp
  have s2: "Suc 2 = 3" by simp
  have r2: "retry_from 2 svc prompt env cb =
     \<lparr> outcome = Inl (CircuitBreakerOpenError breaker_open_message), attempts = 2,
       api_calls = 0, sleeps = [2], breaker = cb \<rparr>"
    using retry_rejected_more[where n=2 and env=env and cb=cb and svc=svc and prompt=prompt, OF a2]
    by (simp add: s2 r3 wait_exponential_values)
  have r2S: "retry_from (Suc (Suc 0)) svc prompt env cb =
     \<lparr> outcome = Inl (CircuitBreakerOpenError breaker_open_message), attempts = 2,
       api_calls = 0, sleeps = [2], breaker = cb \<rparr>"
    using r2 by (simp add: numeral_2_eq_2)
  have wS: "wait_exponential (Suc 0) = 1" by (simp add: wait_exponential_def)
  have r1: "retry_from 1 svc prompt env cb =
     \<lparr> outcome = Inl (CircuitBreakerOpenError breaker_open_message), attempts = 3,
       api_calls = 0, sleeps = [1, 2], breaker = cb \<rparr>"
    using retry_rejected_more[where n=1 and env=env and cb=cb and svc=svc and prompt=prompt, OF a1]
    by (simp add: r2S wS)
  show ?thesis unfolding generate_ui_code_def by (rule r1)
qed

text \<open>
  Claim C1, as amended. When \<open>can_execute\<close> returns \<open>False\<close> before attempt \<open>n\<close>, the
  attempt raises \<open>CircuitBreakerOpenError\<close> with the "temporarily unavailable" message,
  does not call the remote operation and leaves the breaker as it is. The error is an
  \<open>LLMServiceError\<close>, so the retry decorator retries it: after a rejected first or second
  attempt it sleeps \<open>wait_exponential n\<close> seconds and makes the next attempt, which checks
  the breaker again; only the third attempt ends the call. When the breaker rejects all
  three attempts, the call raises \<open>CircuitBreakerOpenError\<close> after 3 attempts and sleeps
  of 1 and 2 seconds, without any remote call.
\<close>

theorem breaker_open_error_is_retried:
  assumes rej: "\<not> fst (can_execute (check_time (env n)) cb)"
  shows "generate_ui_code_attempt svc prompt (env n) cb
           = (Inl (CircuitBreakerOpenError breaker_open_message), False, cb)
       \<and> is_LLMServiceError (CircuitBreakerOpenError breaker_open_message)
       \<and> (n < 3 \<longrightarrow>
            retry_from n svc prompt env cb =
              (retry_from (Suc n) svc prompt env cb)
                \<lparr> attempts := Suc (attempts (retry_from (Suc n) svc prompt env cb)),
                  sleeps := wait_exponential n # sleeps (retry_from (Suc n) svc prompt env cb) \<rparr>)
       \<and> (3 \<le> n \<longrightarrow>
            retry_from n svc prompt env cb =
              \<lparr> outcome = Inl (CircuitBreakerOpenError breaker_open_message), attempts = 1,
                api_calls = 0, sleeps = [], breaker = cb \<rparr>)
       \<and> (n = 1 \<and> \<not> fst (can_execute (check_time (env 2)) cb)
              \<and> \<not> fst (can_execute (check_time (env 3)) cb) \<longrightarrow>
            generate_ui_code svc prompt env cb =
              \<lparr> outcome = Inl (CircuitBreakerOpenError breaker_open_message), attempts = 3,
                api_calls = 0, sleeps = [1, 2], breaker = cb \<rparr>)"
  using rej attempt_rejected[OF rej]
    retry_rejected_more[where env=env and n=n and cb=cb, OF rej]
    retry_rejected_last[where env=env and n=n and cb=cb, OF rej]
    rejected_three_times[of env cb svc prompt]
  by auto

lemma open_default_rejects: "n \<le> 3 \<Longrightarrow> \<not> fst (can_execute (check_time (attempts_example n)) open_default)"
  by (simp add: can_execute_def timeout_passed_def attempts_example_def open_default_def
      default_breaker_def init_breaker_def py_or_int_def)

theorem breaker_open_error_is_retried_witness:
  "\<not> fst (can_execute (check_time (attempts_example 1)) open_default)
   \<and> generate_ui_code_attempt svc_nokey ''a form'' (attempts_example 1) open_default
        = (Inl (CircuitBreakerOpenError breaker_open_message), False, open_default)
   \<and> generate_ui_code svc_nokey ''a form'' attempts_example open_default
        = \<lparr> outcome = Inl (CircuitBreakerOpenError breaker_open_message), attempts = 3,
            api_calls = 0, sleeps = [1, 2], breaker = open_default \<rparr>"
proof -
  have a1: "\<not> fst (can_execute (check_time (attempts_example 1)) open_default)"
    by (rule open_default_rejects) simp
  have a2: "\<not> fst (can_execute (check_time (attempts_example 2)) open_default)"
    by (rule open_default_rejects) simp
  have a3: "\<not> fst (can_execute (check_time (attempts_example 3)) open_default)"
    by (rule open_default_rejects) simp
  note c = breaker_open_error_is_retried[where env=attempts_example and n=1 and cb=open_default
             and svc=svc_nokey and prompt="''a form''", OF a1]
  show ?thesis using a1 a2 a3 c by blast
qed

text \<open>
  The claim as stated fails: the module's breaker is OPEN since time 100 with a timeout of
  60, and the three attempts are made at times 101, 102 and 103. The first check of the
  breaker returns \<open>False\<close>, and yet the call makes three attempts and sleeps 1 and 2
  seconds between them.
\<close>

theorem breaker_open_error_is_retried_counterexample:
  "\<not> fst (can_execute (check_time (attempts_example 1)) open_default)
   \<and> attempts (generate_ui_code svc_key ''a button'' attempts_example open_default) = 3
   \<and> sleeps (generate_ui_code svc_key ''a button'' attempts_example open_default) = [1, 2]"
proof -
  have a1: "\<not> fst (can_execute (check_time (attempts_example 1)) open_default)"
    by (rule open_default_rejects) simp
  have a2: "\<not> fst (can_execute (check_time (attempts_example 2)) open_default)"
    by (rule open_default_rejects) simp
  have a3: "\<not> fst (can_execute (check_time (attempts_example 3)) open_default)"
    by (rule open_default_rejects) simp
  show ?thesis using a1 by (simp add: rejected_three_times[OF a1 a2 a3])
qed

lemma attempt_without_key:
  assumes "\<not> client_configured svc" and "fst (can_execute (check_time e) cb)"
  shows "generate_ui_code_attempt svc prompt e cb =
           (Inl missing_key_error, False,
            record_failure (failure_time e) (snd (can_execute (check_time e) cb)))"
  using assms
  by (auto simp: generate_ui_code_attempt_def try_block_def missing_key_error_def split: prod.splits)

lemma attempt_api_raises:
  assumes "client_configured svc" and "fst (can_execute (check_time e) cb)"
  shows "generate_ui_code_attempt svc prompt (e\<lparr> api := ApiRaises ty msg \<rparr>) cb =
           (Inl (LLMServiceError (''Failed to generate UI code: '' @ msg)), True,
            record_failure (failure_time e) (snd (can_execute (check_time e) cb)))"
  using assms
  by (auto simp: generate_ui_code_attempt_def try_block_def split: prod.splits)

lemma same_breaker_as_transient:
  assumes "\<not> client_configured svc" and "client_configured svc2"
  shows "snd (snd (generate_ui_code_attempt svc prompt e cb)) =
         snd (snd (generate_ui_code_attempt svc2 prompt (e\<lparr> api := ApiRaises ty msg \<rparr>) cb))"
proof (cases "fst (can_execute (check_time e) cb)")
  case True
  show ?thesis
    by (simp add: attempt_without_key[OF assms(1) True] attempt_api_raises[OF assms(2) True])
next
  case False
  then show ?thesis
    by (simp add: generate_ui_code_attempt_def can_execute_false)
qed

lemma retry_without_key_more:
  assumes "\<not> client_configured svc" and "state cb = CLOSED" and "n < 3"
  shows "retry_from n svc prompt env cb =
     (retry_from (Suc n) svc prompt env (record_failure (failure_time (env n)) cb))
       \<lparr> attempts := Suc (attempts (retry_from (Suc n) svc prompt env (record_failure (failure_time (env n)) cb))),
         sleeps := wait_exponential n #
           sleeps (retry_from (Suc n) svc prompt env (record_failure (failure_time (env n)) cb)) \<rparr>"
proof -
  have ce: "can_execute (check_time (env n)) cb = (True, cb)"
    using assms(2) by (simp add: can_execute_def)
  have a: "generate_ui_code_attempt svc prompt (env n) cb =
      (Inl missing_key_error, False, record_failure (failure_time (env n)) cb)"
    using attempt_without_key[OF assms(1), of "env n" cb prompt] ce by simp
  show ?thesis using assms(3)
    by (subst retry_from.simps)
       (simp add: a Let_def stop_after_attempt_def missing_key_error_def)
qed

lemma retry_without_key_last:
  assumes "\<not> client_configured svc" and "state cb = CLOSED" and "3 \<le> n"
  shows "retry_from n svc prompt env cb =
     \<lparr> outcome = Inl missing_key_error, attempts = 1, api_calls = 0, sleeps = [],
       breaker = record_failure (failure_time (env n)) cb \<rparr>"
proof -
  have ce: "can_execute (check_time (env n)) cb = (True, cb)"
    using assms(2) by (simp add: can_execute_def)
  have a: "generate_ui_code_attempt svc prompt (env n) cb =
      (Inl missing_key_error, False, record_failure (failure_time (env n)) cb)"
    using attempt_without_key[OF assms(1), of "env n" cb prompt] ce by simp
  show ?thesis using assms(3)
    by (subst retry_from.simps)
       (simp add: a Let_def stop_after_attempt_def missing_key_error_def)
qed

lemma without_key_three_attempts:
  assumes nokey: "\<not> client_configured svc"
      and closed: "state cb = CLOSED"
      and room: "failure_count cb + 2 < failure_threshold cb"
  shows "generate_ui_code svc prompt env cb =
     \<lparr> outcome = Inl missing_key_error, attempts = 3, api_calls = 0, sleeps = [1, 2],
       breaker = record_failure (failure_time (env 3))
                  (record_failure (failure_time (env 2))
                    (record_failure (failure_time (env 1)) cb)) \<rparr>"
proof -
  let ?cb1 = "record_failure (failure_time (env 1)) cb"
  let ?cb2 = "record_failure (failure_time (env 2)) ?cb1"
  have l1: "failure_count cb + 1 < failure_threshold cb" using room by simp
  have e1: "?cb1 = cb\<lparr> failure_count := failure_count cb + 1,
                         last_failure_time := Some (failure_time (env 1)) \<rparr>"
    using record_failure_below[OF closed l1] .
  have c1: "state ?cb1 = CLOSED" unfolding e1 using closed by simp
  have l2: "failure_count ?cb1 + 1 < failure_threshold ?cb1" unfolding e1 using room by simp
  have e2: "?cb2 = ?cb1\<lparr> failure_count := failure_count ?cb1 + 1,
                          last_failure_time := Some (failure_time (env 2)) \<rparr>"
    using record_failure_below[OF c1 l2] .
  have c2: "state ?cb2 = CLOSED" unfolding e2 using c1 by simp
  have r3: "retry_from 3 svc prompt env ?cb2 =
     \<lparr> outcome = Inl missing_key_error, attempts = 1, api_calls = 0, sleeps = [],
       breaker = record_failure (failure_time (env 3)) ?cb2 \<rparr>"
    using retry_without_key_last[OF nokey c2, where n=3 and env=env] by simp
  have r2: "retry_from 2 svc prompt env ?cb1 =
     \<lparr> outcome = Inl missing_key_error, attempts = 2, api_calls = 0, sleeps = [2],
       breaker = record_failure (failure_time (env 3)) ?cb2 \<rparr>"
    using retry_without_key_more[OF nokey c1, where n=2 and env=env and prompt=prompt]
    by (simp add: r3 wait_exponential_def del: One_nat_def)
  have r1: "retry_from 1 svc prompt env cb =
     \<lparr> outcome = Inl missing_key_error, attempts = 3, api_calls = 0, sleeps = [1, 2],
       breaker = record_failure (failure_time (env 3)) ?cb2 \<rparr>"
    using retry_without_key_more[OF nokey closed, where n=1 and env=env and prompt=prompt]
    by (simp add: r2 wait_exponential_def del: One_nat_def)
  show ?thesis unfolding generate_ui_code_def by (rule r1)
qed

lemma three_failures_count:
  assumes "state cb = CLOSED" and "failure_count cb + 2 < failure_threshold cb"
  shows "failure_count (record_failure t3 (record_failure t2 (record_failure t1 cb)))
           = failure_count cb + 3"
  using assms by (simp add: record_failure_def Let_def open_circuit_def)

text \<open>
  Claim C2, as amended. When the API key is not configured, the fault is raised inside the
  \<open>try\<close> block of the attempt, so the \<open>except Exception\<close> handler catches it: the
  attempt records a failure on the breaker with \<open>record_failure\<close> and raises
  \<open>LLMServiceError\<close> with the text "Failed to generate UI code: OpenAI API key not
  configured". The breaker after such an attempt is the breaker after an attempt whose
  remote call raised, so the fault is recorded exactly like a transient fault of the
  dependency. The error is an \<open>LLMServiceError\<close>, which the retry policy retries: from a
  CLOSED breaker with room for two more failures below the threshold, the call makes 3
  attempts with sleeps of 1 and 2 seconds, never calls the remote operation, and leaves
  \<open>failure_count\<close> increased by 3.
\<close>

theorem missing_api_key_is_recorded_and_retried:
  assumes nokey: "\<not> client_configured svc"
  shows "(fst (can_execute (check_time e) cb) \<longrightarrow>
            generate_ui_code_attempt svc prompt e cb =
              (Inl missing_key_error, False,
               record_failure (failure_time e) (snd (can_execute (check_time e) cb))))
       \<and> is_LLMServiceError missing_key_error
       \<and> (client_configured svc2 \<longrightarrow>
            snd (snd (generate_ui_code_attempt svc prompt e cb)) =
            snd (snd (generate_ui_code_attempt svc2 prompt (e\<lparr> api := ApiRaises ty msg \<rparr>) cb)))
       \<and> (state cb = CLOSED \<and> failure_count cb + 2 < failure_threshold cb \<longrightarrow>
            generate_ui_code svc prompt env cb =
              \<lparr> outcome = Inl missing_key_error, attempts = 3, api_calls = 0, sleeps = [1, 2],
                breaker = record_failure (failure_time (env 3))
                           (record_failure (failure_time (env 2))
                             (record_failure (failure_time (env 1)) cb)) \<rparr>
            \<and> failure_count (breaker (generate_ui_code svc prompt env cb)) = failure_count cb + 3)"
proof -
  have p1: "fst (can_execute (check_time e) cb) \<longrightarrow>
            generate_ui_code_attempt svc prompt e cb =
              (Inl missing_key_error, False,
               record_failure (failure_time e) (snd (can_execute (check_time e) cb)))"
    using attempt_without_key[OF nokey] by blast
  have p2: "is_LLMServiceError missing_key_error" by (simp add: missing_key_error_def)
  have p3: "client_configured svc2 \<longrightarrow>
            snd (snd (generate_ui_code_attempt svc prompt e cb)) =
            snd (snd (generate_ui_code_attempt svc2 prompt (e\<lparr> api := ApiRaises ty msg \<rparr>) cb))"
    using same_breaker_as_transient[OF nokey] by blast
  have p4: "generate_ui_code svc prompt env cb =
              \<lparr> outcome = Inl missing_key_error, attempts = 3, api_calls = 0, sleeps = [1, 2],
                breaker = record_failure (failure_time (env 3))
                           (record_failure (failure_time (env 2))
                             (record_failure (failure_time (env 1)) cb)) \<rparr>
            \<and> failure_count (breaker (generate_ui_code svc prompt env cb)) = failure_count cb + 3"
    if "state cb = CLOSED" and "failure_count cb + 2 < failure_threshold cb"
    using without_key_three_attempts[OF nokey that] three_failures_count[OF that] by simp
  from p1 p2 p3 p4 show ?thesis by blast
qed

lemma nokey_unconfigured: "\<not> client_configured svc_nokey"
  by (simp add: client_configured_def svc_nokey_def)

lemma default_breaker_facts:
  "state default_breaker = CLOSED" "failure_count default_breaker + 2 < failure_threshold default_breaker"
  "failure_count default_breaker = 0"
  by (simp_all add: default_breaker_def init_breaker_def py_or_int_def)

lemma key_configured: "client_configured svc_key"
  by (simp add: client_configured_def svc_key_def)

theorem missing_api_key_is_recorded_and_retried_witness:
  "\<not> client_configured svc_nokey \<and> client_configured svc_key
   \<and> is_LLMServiceError missing_key_error
   \<and> snd (snd (generate_ui_code_attempt svc_nokey ''a form'' (attempts_example 1) open_default))
        = snd (snd (generate_ui_code_attempt svc_key ''a form''
                     ((attempts_example 1)\<lparr> api := ApiRaises ''APITimeoutError'' ''Request timed out.'' \<rparr>)
                     open_default))
   \<and> state default_breaker = CLOSED
   \<and> failure_count default_breaker + 2 < failure_threshold default_breaker
   \<and> failure_count (breaker (generate_ui_code svc_nokey ''a form'' attempts_example default_breaker))
        = failure_count default_breaker + 3"
proof -
  note c1 = missing_api_key_is_recorded_and_retried[OF nokey_unconfigured,
              where ?svc2.0=svc_key and e="attempts_example 1" and cb=open_default
                and prompt="''a form''" and ty="''APITimeoutError''" and msg="''Request timed out.''"]
  note c2 = missing_api_key_is_recorded_and_retried[OF nokey_unconfigured,
              where cb=default_breaker and prompt="''a form''" and env=attempts_example]
  show ?thesis
    using nokey_unconfigured key_configured default_breaker_facts(1,2) c1 c2 by blast
qed

text \<open>
  The claim as stated fails: with no API key and the module's fresh breaker (threshold 5),
  the call does not stop after the first attempt. It makes three attempts, sleeps 1 and 2
  seconds, and the breaker has counted three failures.
\<close>

theorem missing_api_key_is_recorded_and_retried_counterexample:
  "\<not> client_configured svc_nokey
   \<and> attempts (generate_ui_code svc_nokey ''a button'' attempts_example default_breaker) = 3
   \<and> sleeps (generate_ui_code svc_nokey ''a button'' attempts_example default_breaker) = [1, 2]
   \<and> failure_count (breaker (generate_ui_code svc_nokey ''a button'' attempts_example default_breaker)) = 3"
  using nokey_unconfigured
    without_key_three_attempts[OF nokey_unconfigured default_breaker_facts(1,2), of "''a button''" attempts_example]
    three_failures_count[OF default_breaker_facts(1,2)]
  by (simp add: default_breaker_facts(3))

section \<open>Properties of the background task\<close>

lemma job_id_apply_update: "job_id (apply_update u d) = job_id d"
  by (cases u) simp_all

lemma find_one_update_one:
  "find_one jid (update_one jid (apply_update u) db) = map_option (apply_update u) (find_one jid db)"
  by (induction db) (simp_all add: job_id_apply_update)

lemma raised_in_try_handled:
  assumes "failed_write_raises env = None" and "is_Exception e"
  shows "raised_in_try jid env e ws db cb =
     \<lparr> propagated = None, writes = ws @ [SetFailed (str_of e) (failed_at env)],
       store = update_one jid (apply_update (SetFailed (str_of e) (failed_at env))) db,
       breaker_after = cb \<rparr>"
  using assms by (simp add: raised_in_try_def on_exception_def Let_def)

text \<open>
  Claim C3, as amended. Consider a run of \<open>process_generation\<close> in which no exception
  outside \<open>Exception\<close> is raised (no \<open>CancelledError\<close> from a cancelled await: whatever
  the write of \<open>running\<close>, the call of \<open>generate_ui_code\<close> or the success write raises is
  an \<open>Exception\<close>) and the \<open>update_one\<close> of the exception handler does not itself raise.
  Then no exception leaves the task, and exactly one terminal update is applied, as the
  last write of the run:
  \<^item> when the write of \<open>running\<close>, \<open>generate_ui_code\<close> and the success write all go
    through, it is the success update with the generated code and the explanation, and the
    job's document gets status \<open>success\<close>, that code and that explanation;
  \<^item> when the write of \<open>running\<close> raises \<open>e\<close>, when \<open>generate_ui_code\<close> raises \<open>e\<close>, or
    when the success write raises \<open>e\<close>, it is the failed update with \<open>str(e)\<close>, and the
    job's document gets status \<open>failed\<close> and the error message \<open>str(e)\<close>.
  On the document that \<open>generate_ui\<close> inserted (its three result fields \<open>None\<close>), the run
  so ends with code and explanation set and no error message exactly in the first case, and
  with an error message set and no code or explanation in the other cases.
\<close>

theorem process_generation_one_terminal_write:
  assumes handler_ok: "failed_write_raises env = None"
      and running_exc: "\<forall>e. running_write_raises env = Some e \<longrightarrow> is_Exception e"
      and generate_exc: "\<forall>e. outcome (generate_ui_code svc prompt (llm_env env) cb) = Inl e
                           \<longrightarrow> is_Exception e"
      and success_exc: "\<forall>e. success_write_raises env = Some e \<longrightarrow> is_Exception e"
  shows "propagated (process_generation svc jid prompt env cb db) = None
       \<and> filter is_terminal (writes (process_generation svc jid prompt env cb db))
            = [last (writes (process_generation svc jid prompt env cb db))]
       \<and> (running_write_raises env = None \<and> success_write_raises env = None
            \<and> outcome (generate_ui_code svc prompt (llm_env env) cb) = Inr res \<longrightarrow>
          writes (process_generation svc jid prompt env cb db)
            = [SetRunning (running_at env),
               SetSuccess (code res) (explanation res) (success_at env)]
          \<and> (find_one jid db = Some d \<longrightarrow>
               find_one jid (store (process_generation svc jid prompt env cb db))
                 = Some (d\<lparr> status := ''success'', generated_code := Some (code res),
                            doc_explanation := Some (explanation res),
                            updated_at := success_at env \<rparr>)))
       \<and> (running_write_raises env = Some e \<longrightarrow>
          writes (process_generation svc jid prompt env cb db)
            = [SetFailed (str_of e) (failed_at env)]
          \<and> (find_one jid db = Some d \<longrightarrow>
               find_one jid (store (process_generation svc jid prompt env cb db))
                 = Some (d\<lparr> status := ''failed'', error_message := Some (str_of e),
                            updated_at := failed_at env \<rparr>)))
       \<and> (running_write_raises env = None
            \<and> outcome (generate_ui_code svc prompt (llm_env env) cb) = Inl e \<longrightarrow>
          writes (process_generation svc jid prompt env cb db)
            = [SetRunning (running_at env), SetFailed (str_of e) (failed_at env)]
          \<and> (find_one jid db = Some d \<longrightarrow>
               find_one jid (store (process_generation svc jid prompt env cb db))
                 = Some (d\<lparr> status := ''failed'', error_message := Some (str_of e),
                            updated_at := failed_at env \<rparr>)))
       \<and> (running_write_raises env = None
            \<and> outcome (generate_ui_code svc prompt (llm_env env) cb) = Inr res
            \<and> success_write_raises env = Some e \<longrightarrow>
          writes (process_generation svc jid prompt env cb db)
            = [SetRunning (running_at env), SetFailed (str_of e) (failed_at env)]
          \<and> (find_one jid db = Some d \<longrightarrow>
               find_one jid (store (process_generation svc jid prompt env cb db))
                 = Some (d\<lparr> status := ''failed'', error_message := Some (str_of e),
                            updated_at := failed_at env \<rparr>)))
       \<and> (find_one jid db = Some d \<and> generated_code d = None \<and> doc_explanation d = None
            \<and> error_message d = None \<longrightarrow>
          (case find_one jid (store (process_generation svc jid prompt env cb db)) of
             None \<Rightarrow> False
           | Some d' \<Rightarrow>
               if running_write_raises env = None \<and> success_write_raises env = None
                  \<and> \<not> isl (outcome (generate_ui_code svc prompt (llm_env env) cb))
               then status d' = ''success'' \<and> generated_code d' \<noteq> None
                    \<and> doc_explanation d' \<noteq> None \<and> error_message d' = None
               else status d' = ''failed'' \<and> error_message d' \<noteq> None
                    \<and> generated_code d' = None \<and> doc_explanation d' = None))"
proof -
  let ?r = "process_generation svc jid prompt env cb db"
  let ?g = "generate_ui_code svc prompt (llm_env env) cb"
  have succ: "writes ?r = [SetRunning (running_at env),
                 SetSuccess (code res) (explanation res) (success_at env)]
          \<and> propagated ?r = None
          \<and> (find_one jid db = Some d \<longrightarrow>
               find_one jid (store ?r)
                 = Some (d\<lparr> status := ''success'', generated_code := Some (code res),
                            doc_explanation := Some (explanation res),
                            updated_at := success_at env \<rparr>))"
    if "running_write_raises env = None" "success_write_raises env = None" "outcome ?g = Inr res"
    for res
    using that by (simp add: process_generation_def Let_def find_one_update_one)
  have run: "writes ?r = [SetFailed (str_of e) (failed_at env)]
          \<and> propagated ?r = None
          \<and> (find_one jid db = Some d \<longrightarrow>
               find_one jid (store ?r)
                 = Some (d\<lparr> status := ''failed'', error_message := Some (str_of e),
                            updated_at := failed_at env \<rparr>))"
    if w: "running_write_raises env = Some e" for e
  proof -
    have ex: "is_Exception e" using running_exc w by blast
    show ?thesis
      by (simp add: process_generation_def w raised_in_try_handled[OF handler_ok ex]
            find_one_update_one)
  qed
  have gen: "writes ?r = [SetRunning (running_at env), SetFailed (str_of e) (failed_at env)]
          \<and> propagated ?r = None
          \<and> (find_one jid db = Some d \<longrightarrow>
               find_one jid (store ?r)
                 = Some (d\<lparr> status := ''failed'', error_message := Some (str_of e),
                            updated_at := failed_at env \<rparr>))"
    if w: "running_write_raises env = None" "outcome ?g = Inl e" for e
  proof -
    have ex: "is_Exception e" using generate_exc w(2) by blast
    show ?thesis
      by (simp add: process_generation_def Let_def w raised_in_try_handled[OF handler_ok ex]
            find_one_update_one)
  qed
  have sw: "writes ?r = [SetRunning (running_at env), SetFailed (str_of e) (failed_at env)]
          \<and> propagated ?r = None
          \<and> (find_one jid db = Some d \<longrightarrow>
               find_one jid (store ?r)
                 = Some (d\<lparr> status := ''failed'', error_message := Some (str_of e),
                            updated_at := failed_at env \<rparr>))"
    if w: "running_write_raises env = None" "outcome ?g = Inr res" "success_write_raises env = Some e"
    for e res
  proof -
    have ex: "is_Exception e" using success_exc w(3) by blast
    show ?thesis
      by (simp add: process_generation_def Let_def w raised_in_try_handled[OF handler_ok ex]
            find_one_update_one)
  qed
  have all: "propagated ?r = None \<and> filter is_terminal (writes ?r) = [last (writes ?r)]"
  proof (cases "running_write_raises env")
    case (Some e1)
    from run[OF Some] show ?thesis by simp
  next
    case None
    show ?thesis
    proof (cases "outcome ?g")
      case (Inl e1)
      from gen[OF None Inl] show ?thesis by simp
    next
      case (Inr res1)
      show ?thesis
      proof (cases "success_write_raises env")
        case None2: None
        from succ[OF None None2 Inr] show ?thesis by simp
      next
        case (Some e1)
        from sw[OF None Inr Some] show ?thesis by simp
      qed
    qed
  qed
  have shape: "case find_one jid (store ?r) of
             None \<Rightarrow> False
           | Some d' \<Rightarrow>
               if running_write_raises env = None \<and> success_write_raises env = None
                  \<and> \<not> isl (outcome ?g)
               then status d' = ''success'' \<and> generated_code d' \<noteq> None
                    \<and> doc_explanation d' \<noteq> None \<and> error_message d' = None
               else status d' = ''failed'' \<and> error_message d' \<noteq> None
                    \<and> generated_code d' = None \<and> doc_explanation d' = None"
    if d: "find_one jid db = Some d" "generated_code d = None" "doc_explanation d = None"
          "error_message d = None"
  proof (cases "running_write_raises env")
    case (Some e1)
    from run[OF Some] d show ?thesis by (simp add: Some)
  next
    case None
    show ?thesis
    proof (cases "outcome ?g")
      case (Inl e1)
      from gen[OF None Inl] d show ?thesis by (simp add: Inl)
    next
      case (Inr res1)
      show ?thesis
      proof (cases "success_write_raises env")
        case None2: None
        from succ[OF None None2 Inr] d show ?thesis by (simp add: None None2 Inr)
      next
        case (Some e1)
        from sw[OF None Inr Some] d show ?thesis by (simp add: Some)
      qed
    qed
  qed
  from all succ run gen sw shape show ?thesis by blast
qed

lemma default_breaker_executes: "can_execute t default_breaker = (True, default_breaker)"
  by (simp add: can_execute_def default_breaker_def init_breaker_def)

lemma strip_example: "py_strip (remove_code_fence (py_strip ''x'')) = ''x''"
  by (simp add: py_strip_def py_isspace_def remove_code_fence_def fence_def)

lemma generate_example_returns:
  "outcome (generate_ui_code svc_key ''a button'' attempts_example default_breaker)
     = Inr \<lparr> code = ''x'', explanation = ''Generated React component based on: a button'' \<rparr>"
  unfolding generate_ui_code_def
  by (subst retry_from.simps)
     (simp add: generate_ui_code_attempt_def default_breaker_executes try_block_def
        client_configured_def svc_key_def attempts_example_def strip_example Let_def)

lemma generate_example_cancelled:
  "outcome (generate_ui_code svc_key ''a button'' attempts_cancelled default_breaker)
     = Inl cancelled"
  unfolding generate_ui_code_def
  by (subst retry_from.simps)
     (simp add: generate_ui_code_attempt_def default_breaker_executes try_block_def
        client_configured_def svc_key_def attempts_cancelled_def cancelled_def Let_def)

theorem process_generation_one_terminal_write_witness:
  "failed_write_raises job_env_ok = None
   \<and> propagated (process_generation svc_key ''job-1'' ''a button'' job_env_ok default_breaker db_example)
        = None
   \<and> filter is_terminal
        (writes (process_generation svc_key ''job-1'' ''a button'' job_env_ok default_breaker db_example))
        = [last (writes (process_generation svc_key ''job-1'' ''a button'' job_env_ok
                           default_breaker db_example))]
   \<and> writes (process_generation svc_key ''job-1'' ''a button'' job_env_ok default_breaker db_example)
        = [SetRunning (running_at job_env_ok),
           SetSuccess ''x'' ''Generated React component based on: a button'' (success_at job_env_ok)]"
proof -
  have h1: "failed_write_raises job_env_ok = None" by (simp add: job_env_ok_def)
  have h2: "\<forall>e. running_write_raises job_env_ok = Some e \<longrightarrow> is_Exception e"
    by (simp add: job_env_ok_def)
  have g: "outcome (generate_ui_code svc_key ''a button'' (llm_env job_env_ok) default_breaker)
     = Inr \<lparr> code = ''x'', explanation = ''Generated React component based on: a button'' \<rparr>"
    using generate_example_returns by (simp add: job_env_ok_def)
  have h3: "\<forall>e. outcome (generate_ui_code svc_key ''a button'' (llm_env job_env_ok) default_breaker)
                  = Inl e \<longrightarrow> is_Exception e"
    by (simp add: g)
  have h4: "\<forall>e. success_write_raises job_env_ok = Some e \<longrightarrow> is_Exception e"
    by (simp add: job_env_ok_def)
  have r: "running_write_raises job_env_ok = None" "success_write_raises job_env_ok = None"
    by (simp_all add: job_env_ok_def)
  note c = process_generation_one_terminal_write[OF h1 h2 h3 h4, where jid="''job-1''" and db=db_example
             and res="\<lparr> code = ''x'', explanation = ''Generated React component based on: a button'' \<rparr>"]
  have w: "writes (process_generation svc_key ''job-1'' ''a button'' job_env_ok default_breaker db_example)
        = [SetRunning (running_at job_env_ok),
           SetSuccess (code \<lparr> code = ''x'', explanation = ''Generated React component based on: a button'' \<rparr>)
             (explanation \<lparr> code = ''x'', explanation = ''Generated React component based on: a button'' \<rparr>)
             (success_at job_env_ok)]"
    using c r g by blast
  have w2: "writes (process_generation svc_key ''job-1'' ''a button'' job_env_ok default_breaker db_example)
        = [SetRunning (running_at job_env_ok),
           SetSuccess ''x'' ''Generated React component based on: a button'' (success_at job_env_ok)]"
    using w by simp
  show ?thesis using h1 c w2 by blast
qed

text \<open>
  The claim as stated fails in two ways. When the database is unreachable, the write of
  \<open>running\<close> raises, the handler's own \<open>update_one\<close> raises too, that exception leaves the
  background task, and no terminal update is applied. When the task is cancelled while it
  awaits the remote call, the \<open>CancelledError\<close> is not an \<open>Exception\<close>: neither
  \<open>except Exception\<close> clause catches it, it leaves the task, and no terminal update is
  applied although the handler's write would have succeeded.
\<close>

theorem process_generation_one_terminal_write_counterexample:
  "propagated (process_generation svc_key ''job-1'' ''a button'' job_env_db_down default_breaker db_example)
     = Some db_unreachable
   \<and> filter is_terminal
        (writes (process_generation svc_key ''job-1'' ''a button'' job_env_db_down default_breaker db_example))
     = []
   \<and> failed_write_raises job_env_cancelled = None
   \<and> propagated (process_generation svc_key ''job-1'' ''a button'' job_env_cancelled default_breaker db_example)
     = Some cancelled
   \<and> filter is_terminal
        (writes (process_generation svc_key ''job-1'' ''a button'' job_env_cancelled default_breaker db_example))
     = []"
proof -
  have a: "propagated (process_generation svc_key ''job-1'' ''a button'' job_env_db_down default_breaker db_example)
     = Some db_unreachable
   \<and> filter is_terminal
        (writes (process_generation svc_key ''job-1'' ''a button'' job_env_db_down default_breaker db_example))
     = []"
    by (simp add: process_generation_def raised_in_try_def on_exception_def job_env_db_down_def
          job_env_ok_def db_unreachable_def)
  have g: "outcome (generate_ui_code svc_key ''a button'' (llm_env job_env_cancelled) default_breaker)
     = Inl cancelled"
    using generate_example_cancelled by (simp add: job_env_cancelled_def)
  have b: "propagated (process_generation svc_key ''job-1'' ''a button'' job_env_cancelled default_breaker db_example)
     = Some cancelled
   \<and> filter is_terminal
        (writes (process_generation svc_key ''job-1'' ''a button'' job_env_cancelled default_breaker db_example))
     = []"
    using g
    by (simp add: process_generation_def raised_in_try_def Let_def job_env_cancelled_def
          job_env_ok_def cancelled_def)
  have c: "failed_write_raises job_env_cancelled = None"
    by (simp add: job_env_cancelled_def job_env_ok_def)
  from a b c show ?thesis by blast
qed

end
